theory Spec2Isabelle
  imports Complex_Main
begin

section \<open>Text\<close>

text \<open>
  A Python \<^verbatim>\<open>str\<close> is a sequence of Unicode code points and \<^verbatim>\<open>len\<close> counts code
  points, so text is a list of code points here. \<open>str\<close> turns an ASCII literal into text.
\<close>

type_synonym str = "nat list"

definition str :: "string \<Rightarrow> str" where
  "str s = map of_char s"

section \<open>Usage throttle (app/utils/rate_limiter.py)\<close>

text \<open>
  \<^verbatim>\<open>REQUESTS_PER_MINUTE\<close> and \<^verbatim>\<open>TOKENS_PER_MINUTE\<close> are read from the environment in
  app/config/settings.py (defaults 60 and 60000); any integer can be configured.
\<close>

record settings =
  REQUESTS_PER_MINUTE :: int
  TOKENS_PER_MINUTE :: int

text \<open>
  The module-level dictionary \<^verbatim>\<open>usage_tracking\<close>. Every function that uses it takes it as an
  argument and returns it updated. \<^verbatim>\<open>time.time()\<close> is a real number of seconds; each call of
  it is an argument of the function that makes the call.
\<close>

record usage_tracking =
  last_reset :: real
  tokens_used :: int
  requests_used :: int

definition check_and_reset_counters :: "real \<Rightarrow> usage_tracking \<Rightarrow> usage_tracking" where
  "check_and_reset_counters current_time u =
     (if current_time - last_reset u > 60
      then \<lparr>last_reset = current_time, tokens_used = 0, requests_used = 0\<rparr>
      else u)"

text \<open>
  \<^verbatim>\<open>count_tokens\<close> asks tiktoken for the encoding of the text and returns its length; when
  tiktoken raises it falls back to \<^verbatim>\<open>len(text) // 4\<close>. tiktoken is a library outside the
  repository: the encoder is a parameter, \<open>None\<close> standing for a raised exception.
\<close>

type_synonym encoder = "str \<Rightarrow> nat list option"

definition count_tokens :: "encoder \<Rightarrow> str \<Rightarrow> int" where
  "count_tokens enc text =
     (case enc text of
        Some ids \<Rightarrow> int (length ids)
      | None \<Rightarrow> int (length text) div 4)"

definition check_token_rate_limit ::
  "settings \<Rightarrow> real \<Rightarrow> int \<Rightarrow> usage_tracking \<Rightarrow> bool \<times> usage_tracking" where
  "check_token_rate_limit cfg now token_count u =
     (let u1 = check_and_reset_counters now u in
      if tokens_used u1 + token_count > TOKENS_PER_MINUTE cfg
      then (False, u1)
      else (True, u1\<lparr>tokens_used := tokens_used u1 + token_count\<rparr>))"

text \<open>
  \<^verbatim>\<open>RateLimitError(limit_type, limit)\<close> of app/utils/errors.py; its status code is 429. The
  formatted message is not modelled.
\<close>

datatype api_error = RateLimitError (err_limit_type: str) (err_limit: int)

fun status_code :: "api_error \<Rightarrow> int" where
  "status_code (RateLimitError _ _) = 429"

definition track_request ::
  "settings \<Rightarrow> real \<Rightarrow> usage_tracking \<Rightarrow> (api_error + unit) \<times> usage_tracking" where
  "track_request cfg now u =
     (let u1 = check_and_reset_counters now u in
      if requests_used u1 \<ge> REQUESTS_PER_MINUTE cfg
      then (Inl (RateLimitError (str ''Request'') (REQUESTS_PER_MINUTE cfg)), u1)
      else (Inr (), u1\<lparr>requests_used := requests_used u1 + 1\<rparr>))"

text \<open>Python's \<^verbatim>\<open>int(x)\<close> on a float truncates towards zero.\<close>

definition py_int :: "real \<Rightarrow> int" where
  "py_int x = (if 0 \<le> x then \<lfloor>x\<rfloor> else \<lceil>x\<rceil>)"

record budget =
  limit :: int
  used :: int
  remaining :: int
  reset_after_seconds :: int

record rate_limit_status =
  requests :: budget
  tokens :: budget

text \<open>
  \<^verbatim>\<open>get_rate_limit_status\<close> reads the clock twice: \<open>t_check\<close> inside
  \<^verbatim>\<open>check_and_reset_counters\<close>, \<open>t_read\<close> for the time until reset.
\<close>

definition get_rate_limit_status ::
  "settings \<Rightarrow> real \<Rightarrow> real \<Rightarrow> usage_tracking \<Rightarrow> rate_limit_status \<times> usage_tracking" where
  "get_rate_limit_status cfg t_check t_read u =
     (let u1 = check_and_reset_counters t_check u;
          time_until_reset = max 0 (60 - (t_read - last_reset u1));
          remaining_requests = max 0 (REQUESTS_PER_MINUTE cfg - requests_used u1)
      in (\<lparr>requests =
             \<lparr>limit = REQUESTS_PER_MINUTE cfg,
              used = requests_used u1,
              remaining = remaining_requests,
              reset_after_seconds = py_int time_until_reset\<rparr>,
           tokens =
             \<lparr>limit = TOKENS_PER_MINUTE cfg,
              used = tokens_used u1,
              remaining = TOKENS_PER_MINUTE cfg - tokens_used u1,
              reset_after_seconds = py_int time_until_reset\<rparr>\<rparr>,
          u1))"

text \<open>
  A sequence of throttle calls, each with the clock readings it makes, run in order on the
  shared state.
\<close>

datatype call =
    AdmitRequest real
  | AdmitTokens real int
  | Status real real

fun call_time :: "call \<Rightarrow> real" where
  "call_time (AdmitRequest t) = t"
| "call_time (AdmitTokens t n) = t"
| "call_time (Status t t') = t"

fun exec :: "settings \<Rightarrow> call \<Rightarrow> usage_tracking \<Rightarrow> usage_tracking" where
  "exec cfg (AdmitRequest t) u = snd (track_request cfg t u)"
| "exec cfg (AdmitTokens t n) u = snd (check_token_rate_limit cfg t n u)"
| "exec cfg (Status t t') u = snd (get_rate_limit_status cfg t t' u)"

fun run :: "settings \<Rightarrow> call list \<Rightarrow> usage_tracking \<Rightarrow> usage_tracking" where
  "run cfg [] u = u"
| "run cfg (c # cs) u = run cfg cs (exec cfg c u)"

definition fresh_window :: "real \<Rightarrow> usage_tracking" where
  "fresh_window t = \<lparr>last_reset = t, tokens_used = 0, requests_used = 0\<rparr>"

definition default_settings :: settings where
  "default_settings = \<lparr>REQUESTS_PER_MINUTE = 60, TOKENS_PER_MINUTE = 60000\<rparr>"

section \<open>Store (app/models/chat.py, app/crud/chat.py)\<close>

text \<open>
  The rows of the two tables the chat path touches. A UUID is a natural number. The list
  of conversations is in insertion order, which is the order of the server-assigned
  \<^verbatim>\<open>created_at\<close>; the generated primary key and \<^verbatim>\<open>created_at\<close> of a conversation are not
  modelled.
\<close>

type_synonym uuid = nat

record thread =
  id_thread :: uuid
  title :: str
  user_id :: uuid
  updated_at :: "real option"

record conversation =
  thread_id :: uuid
  role :: str
  content :: str
  model :: "str option"
  token_count :: "int option"

text \<open>
  The SQLAlchemy session \<^verbatim>\<open>db\<close> (\<^verbatim>\<open>autocommit=False\<close>, on PostgreSQL: the models use the
  PostgreSQL UUID type). SQLAlchemy is outside the repository and any of its calls can
  raise; two such failures are inputs of the model: the SELECT on conversations of
  \<^verbatim>\<open>get_thread_messages_optimized\<close> raising, and a commit raising (before anything is
  written). The string is \<^verbatim>\<open>str(e)\<close>.

  A statement that raises leaves the session's transaction aborted: until a rollback,
  which the chat path never does, every further statement on the session raises.
  \<open>transaction_aborted\<close> is that state and \<open>in_failed_transaction\<close> the text of the exception
  raised in it. After a commit that raises, nothing on the chat path touches the session
  again, so the state it leaves is not tracked.
\<close>

record session =
  threads :: "thread list"
  conversations :: "conversation list"
  select_conversations_raises :: "str option"
  commit_raises :: "str option"
  transaction_aborted :: bool
  in_failed_transaction :: str

text \<open>The exception, if any, that executing a statement raises because of the session's state.\<close>

definition execute_raises :: "session \<Rightarrow> str option" where
  "execute_raises db = (if transaction_aborted db then Some (in_failed_transaction db) else None)"

text \<open>\<^verbatim>\<open>db.commit()\<close>: the exception it raises, if any.\<close>

definition commit :: "session \<Rightarrow> str option" where
  "commit db = (case execute_raises db of Some e \<Rightarrow> Some e | None \<Rightarrow> commit_raises db)"

definition get_thread :: "session \<Rightarrow> uuid \<Rightarrow> str + thread option" where
  "get_thread db tid =
     (case execute_raises db of
        Some e \<Rightarrow> Inl e
      | None \<Rightarrow> Inr (find (\<lambda>t. id_thread t = tid) (threads db)))"

definition create_conversation :: "session \<Rightarrow> conversation \<Rightarrow> str + session" where
  "create_conversation db conv =
     (case commit db of
        Some e \<Rightarrow> Inl e
      | None \<Rightarrow> Inr (db\<lparr>conversations := conversations db @ [conv]\<rparr>))"

section \<open>Thread service (app/threads/thread_service.py)\<close>

text \<open>
  One entry of the history handed to the model client:
  \<^verbatim>\<open>{"role": row.role, "parts": [{"text": row.content}]}\<close>.
\<close>

record history_entry =
  h_role :: str
  parts :: "str list"

text \<open>
  \<^verbatim>\<open>get_thread_messages_optimized\<close> returns its result or the exception, and the session as
  the SELECT leaves it.
\<close>

definition get_thread_messages_optimized ::
  "session \<Rightarrow> uuid \<Rightarrow> (str + history_entry list) \<times> session" where
  "get_thread_messages_optimized db tid =
     (case execute_raises db of
        Some e \<Rightarrow> (Inl e, db)
      | None \<Rightarrow>
          (case select_conversations_raises db of
             Some e \<Rightarrow> (Inl e, db\<lparr>transaction_aborted := True\<rparr>)
           | None \<Rightarrow>
               (Inr (map (\<lambda>row. \<lparr>h_role = role row, parts = [content row]\<rparr>)
                       (filter (\<lambda>c. thread_id c = tid) (conversations db))),
                db)))"

text \<open>
  The message dictionaries passed to \<^verbatim>\<open>add_messages_to_thread\<close>, with the keys it reads.
\<close>

record message =
  msg_content :: str
  msg_model :: "str option"
  msg_token_count :: "int option"

text \<open>\<^verbatim>\<open>message.get("token_count") or count_tokens(message["content"])\<close>: 0 is falsy.\<close>

definition token_count_or :: "encoder \<Rightarrow> message \<Rightarrow> int" where
  "token_count_or enc m =
     (case msg_token_count m of
        Some n \<Rightarrow> if n \<noteq> 0 then n else count_tokens enc (msg_content m)
      | None \<Rightarrow> count_tokens enc (msg_content m))"

definition touch_thread :: "real \<Rightarrow> uuid \<Rightarrow> session \<Rightarrow> session" where
  "touch_thread now tid db =
     db\<lparr>threads := map (\<lambda>t. if id_thread t = tid then t\<lparr>updated_at := Some now\<rparr> else t)
                       (threads db)\<rparr>"

definition add_messages_to_thread ::
  "encoder \<Rightarrow> session \<Rightarrow> real \<Rightarrow> uuid \<Rightarrow> message option \<Rightarrow> message option
     \<Rightarrow> str + (bool \<times> session)" where
  "add_messages_to_thread enc db now tid user_message assistant_response =
     (case get_thread db tid of
        Inl e \<Rightarrow> Inl e
      | Inr None \<Rightarrow> Inr (False, db)
      | Inr (Some thread) \<Rightarrow>
          (case (case user_message of
                   None \<Rightarrow> Inr db
                 | Some m \<Rightarrow>
                     create_conversation db
                       \<lparr>thread_id = tid, role = str ''user'', content = msg_content m,
                        model = None, token_count = Some (token_count_or enc m)\<rparr>) of
             Inl e \<Rightarrow> Inl e
           | Inr db1 \<Rightarrow>
               (case (case assistant_response of
                        None \<Rightarrow> Inr db1
                      | Some m \<Rightarrow>
                          create_conversation db1
                            \<lparr>thread_id = tid, role = str ''model'', content = msg_content m,
                             model = msg_model m, token_count = Some (token_count_or enc m)\<rparr>) of
                  Inl e \<Rightarrow> Inl e
                | Inr db2 \<Rightarrow>
                    (case commit db2 of
                       Some e \<Rightarrow> Inl e
                     | None \<Rightarrow> Inr (True, touch_thread now tid db2)))))"

section \<open>Chat service (app/chat/chat_service.py)\<close>

text \<open>
  The Gemini client is outside the repository. \<^verbatim>\<open>client.chats.create(model, history)\<close>
  returns a chat object holding its two arguments, or raises; \<^verbatim>\<open>chat.send_message_stream\<close>
  raises or returns an iterator. The iterator is the list of what the loop sees: a chunk
  with its \<^verbatim>\<open>text\<close> attribute (\<open>None\<close> when absent or \<^verbatim>\<open>None\<close>) and the reading of
  \<^verbatim>\<open>time.time()\<close> made while that chunk is checked, or an exception raised by the iterator.
\<close>

record chat =
  chat_model :: str
  chat_history :: "history_entry list"

datatype item = Chunk real "str option" | Raises str

record genai =
  chats_create_raises :: "str \<Rightarrow> history_entry list \<Rightarrow> str option"
  send_message_stream :: "chat \<Rightarrow> str \<Rightarrow> str + item list"

text \<open>
  Server-sent events. \<^verbatim>\<open>json.dumps({'content': t})\<close> is the object framing around the JSON
  encoding of the string \<open>t\<close>; the string encoder of the standard library is the parameter
  \<open>dumps\<close>.
\<close>

definition warning_sign :: str where
  "warning_sign = [0x26A0, 0xFE0F]"

definition sse_content :: "(str \<Rightarrow> str) \<Rightarrow> str \<Rightarrow> str" where
  \<open>sse_content dumps t = str ''data: {"content": '' @ dumps t @ str ''}'' @ [10, 10]\<close>

definition sse_done :: str where
  "sse_done = str ''data: [DONE]'' @ [10, 10]"

definition truncation_notice :: str where
  "truncation_notice = warning_sign @ str '' Token rate limit exceeded. Response truncated.''"

definition error_notice :: "str \<Rightarrow> str" where
  "error_notice e = warning_sign @ str '' Error: '' @ e"

text \<open>
  The \<^verbatim>\<open>for chunk in response\<close> loop of \<^verbatim>\<open>stream_response\<close>. It returns how the loop ended,
  \<^verbatim>\<open>accumulated_text\<close>, the events yielded in order, and the usage state.
\<close>

datatype loop_end = Exhausted | Truncated | Raised str

fun for_loop ::
  "settings \<Rightarrow> encoder \<Rightarrow> (str \<Rightarrow> str) \<Rightarrow> item list \<Rightarrow> str \<Rightarrow> usage_tracking
     \<Rightarrow> loop_end \<times> str \<times> str list \<times> usage_tracking" where
  "for_loop cfg enc dumps [] accumulated_text u = (Exhausted, accumulated_text, [], u)"
| "for_loop cfg enc dumps (Raises e # response) accumulated_text u =
     (Raised e, accumulated_text, [], u)"
| "for_loop cfg enc dumps (Chunk now None # response) accumulated_text u =
     for_loop cfg enc dumps response accumulated_text u"
| "for_loop cfg enc dumps (Chunk now (Some new_text) # response) accumulated_text u =
     (if new_text = [] then for_loop cfg enc dumps response accumulated_text u
      else
        (let accumulated_text' = accumulated_text @ new_text;
             chunk_tokens = count_tokens enc new_text
         in case check_token_rate_limit cfg now chunk_tokens u of
              (False, u') \<Rightarrow>
                (Truncated, accumulated_text',
                 [sse_content dumps truncation_notice, sse_done], u')
            | (True, u') \<Rightarrow>
                (case for_loop cfg enc dumps response accumulated_text' u' of
                   (e, a, evs, u'') \<Rightarrow> (e, a, sse_content dumps new_text # evs, u''))))"

text \<open>
  The generator object built by \<^verbatim>\<open>stream_response(chat, question, thread_id, db, model)\<close>;
  nothing of its body runs until the response is iterated.
\<close>

record generator =
  gen_chat :: chat
  gen_question :: str
  gen_thread_id :: uuid
  gen_model :: str

text \<open>
  Iterating the generator to its end: the events yielded, the store and the usage state
  afterwards. \<open>now\<close> is the reading of \<^verbatim>\<open>datetime.utcnow()\<close> in \<^verbatim>\<open>add_messages_to_thread\<close>.
\<close>

definition stream_response ::
  "genai \<Rightarrow> settings \<Rightarrow> encoder \<Rightarrow> (str \<Rightarrow> str) \<Rightarrow> real \<Rightarrow> generator \<Rightarrow> session
     \<Rightarrow> usage_tracking \<Rightarrow> str list \<times> session \<times> usage_tracking" where
  "stream_response gem cfg enc dumps now g db u =
     (case send_message_stream gem (gen_chat g) (gen_question g) of
        Inl e \<Rightarrow> ([sse_content dumps (error_notice e), sse_done], db, u)
      | Inr response \<Rightarrow>
          (case for_loop cfg enc dumps response [] u of
             (Truncated, accumulated_text, evs, u') \<Rightarrow> (evs, db, u')
           | (Raised e, accumulated_text, evs, u') \<Rightarrow>
               (evs @ [sse_content dumps (error_notice e), sse_done], db, u')
           | (Exhausted, accumulated_text, evs, u') \<Rightarrow>
               (case add_messages_to_thread enc db now (gen_thread_id g) None
                       (Some \<lparr>msg_content = accumulated_text, msg_model = Some (gen_model g),
                              msg_token_count = Some (count_tokens enc accumulated_text)\<rparr>) of
                  Inl e \<Rightarrow> (evs @ [sse_content dumps (error_notice e), sse_done], db, u')
                | Inr (_, db') \<Rightarrow> (evs @ [sse_done], db', u'))))"

datatype response =
    StreamingResponse generator
  | ReplyDict str str
  | HTTPException int str

definition process_chat_request ::
  "genai \<Rightarrow> str \<Rightarrow> history_entry list \<Rightarrow> str \<Rightarrow> uuid \<Rightarrow> response" where
  "process_chat_request gem question history model_id tid =
     (case chats_create_raises gem model_id history of
        Some e \<Rightarrow>
          ReplyDict (str ''model'') (warning_sign @ str '' Error processing request: '' @ e)
      | None \<Rightarrow>
          StreamingResponse
            \<lparr>gen_chat = \<lparr>chat_model = model_id, chat_history = history\<rparr>,
             gen_question = question, gen_thread_id = tid, gen_model = model_id\<rparr>)"

section \<open>Chat route (app/api/routes/chat.py)\<close>

record chat_request =
  req_model :: str
  question :: str

definition chat_with_thread ::
  "genai \<Rightarrow> encoder \<Rightarrow> real \<Rightarrow> chat_request \<Rightarrow> uuid \<Rightarrow> session \<Rightarrow> response \<times> session" where
  "chat_with_thread gem enc now req tid db =
     (case get_thread_messages_optimized db tid of
        (retrieved, db0) \<Rightarrow>
          (let existing_conversation_history =
                 (case retrieved of
                    Inl e \<Rightarrow> []
                  | Inr h \<Rightarrow> h);
               complete_messages = existing_conversation_history;
               new_user_message =
                 \<lparr>msg_content = question req, msg_model = None,
                  msg_token_count = Some (count_tokens enc (question req))\<rparr>
           in case add_messages_to_thread enc db0 now tid (Some new_user_message) None of
                Inl e \<Rightarrow> (HTTPException 500 e, db0)
              | Inr (_, db') \<Rightarrow>
                  (process_chat_request gem (question req) complete_messages (req_model req)
                     tid,
                   db')))"

text \<open>
  What the framework does with the value the route returns: a streaming response is
  iterated to its end, anything else is sent as it is. The result is the route's response,
  the events of the body, and the store and usage state at the end.
\<close>

definition serve_chat ::
  "genai \<Rightarrow> settings \<Rightarrow> encoder \<Rightarrow> (str \<Rightarrow> str) \<Rightarrow> real \<Rightarrow> real \<Rightarrow> chat_request \<Rightarrow> uuid
     \<Rightarrow> session \<Rightarrow> usage_tracking \<Rightarrow> response \<times> str list \<times> session \<times> usage_tracking" where
  "serve_chat gem cfg enc dumps now1 now2 req tid db u =
     (case chat_with_thread gem enc now1 req tid db of
        (StreamingResponse g, db1) \<Rightarrow>
          (case stream_response gem cfg enc dumps now2 g db1 u of
             (evs, db2, u') \<Rightarrow> (StreamingResponse g, evs, db2, u'))
      | (r, db1) \<Rightarrow> (r, [], db1, u))"

section \<open>Vocabulary of the properties\<close>

text \<open>
  The fragments of an upstream sequence: the non-empty texts of its chunks, in arrival
  order. Chunks without text and raised exceptions carry no fragment.
\<close>

fun fragments :: "item list \<Rightarrow> str list" where
  "fragments [] = []"
| "fragments (Raises e # xs) = fragments xs"
| "fragments (Chunk now None # xs) = fragments xs"
| "fragments (Chunk now (Some t) # xs) = (if t = [] then fragments xs else t # fragments xs)"

text \<open>The model-role row written for a finished stream, and the user-role row of a request.\<close>

definition model_turn :: "encoder \<Rightarrow> uuid \<Rightarrow> str \<Rightarrow> str \<Rightarrow> conversation" where
  "model_turn enc tid model_id text =
     \<lparr>thread_id = tid, role = str ''model'', content = text, model = Some model_id,
      token_count = Some (count_tokens enc text)\<rparr>"

definition user_turn :: "encoder \<Rightarrow> uuid \<Rightarrow> str \<Rightarrow> conversation" where
  "user_turn enc tid text =
     \<lparr>thread_id = tid, role = str ''user'', content = text, model = None,
      token_count = Some (count_tokens enc text)\<rparr>"

subsection \<open>Concrete collaborators for the examples\<close>

text \<open>A client whose stream is a fixed sequence, and one whose streaming call raises.\<close>

definition scripted :: "item list \<Rightarrow> genai" where
  "scripted items =
     \<lparr>chats_create_raises = (\<lambda>m h. None), send_message_stream = (\<lambda>c q. Inr items)\<rparr>"

definition refusing :: "str \<Rightarrow> genai" where
  "refusing e =
     \<lparr>chats_create_raises = (\<lambda>m h. None), send_message_stream = (\<lambda>c q. Inl e)\<rparr>"

text \<open>The tokenizer of the specification's examples: one token per code point.\<close>

definition len_encoder :: encoder where
  "len_encoder text = Some text"

definition plain_dumps :: "str \<Rightarrow> str" where
  "plain_dumps t = 34 # t @ [34]"

definition demo_thread :: thread where
  "demo_thread = \<lparr>id_thread = 1, title = str ''demo'', user_id = 7, updated_at = None\<rparr>"

definition aborted_text :: str where
  "aborted_text =
     str ''current transaction is aborted, commands ignored until end of transaction block''"

definition one_thread :: session where
  "one_thread =
     \<lparr>threads = [demo_thread],
      conversations = [], select_conversations_raises = None, commit_raises = None,
      transaction_aborted = False, in_failed_transaction = aborted_text\<rparr>"

definition no_threads :: session where
  "no_threads =
     \<lparr>threads = [], conversations = [], select_conversations_raises = None,
      commit_raises = None, transaction_aborted = False,
      in_failed_transaction = aborted_text\<rparr>"

definition demo_generator :: generator where
  "demo_generator =
     \<lparr>gen_chat = \<lparr>chat_model = str ''gemini-2.0-flash'', chat_history = []\<rparr>,
      gen_question = str ''hi'', gen_thread_id = 1, gen_model = str ''gemini-2.0-flash''\<rparr>"

definition demo_request :: chat_request where
  "demo_request = \<lparr>req_model = str ''gemini-2.0-flash'', question = str ''hi''\<rparr>"

text \<open>
  The streams of the specification's examples, each chunk with the time at which it is
  checked, and a token limit of 5.
\<close>

definition five_tokens :: settings where
  "five_tokens = \<lparr>REQUESTS_PER_MINUTE = 60, TOKENS_PER_MINUTE = 5\<rparr>"

definition aaaaa_bbbbb :: "item list" where
  "aaaaa_bbbbb = [Chunk 1 (Some (str ''aaaaa'')), Chunk 2 (Some (str ''bbbbb''))]"

definition hello_world :: "item list" where
  "hello_world =
     [Chunk 1 (Some (str ''Hel'')), Chunk 2 (Some (str ''lo'')), Chunk 3 (Some (str '' world''))]"

text \<open>A stream whose iterator raises after its first fragment.\<close>

definition hel_then_raise :: "item list" where
  "hel_then_raise =
     [Chunk 1 (Some (str ''Hel'')), Raises (str ''reset by peer''), Chunk 2 (Some (str ''lo''))]"

text \<open>
  A store whose thread 1 already holds one exchange and whose SELECT on conversations
  raises.
\<close>

definition broken_select :: session where
  "broken_select =
     \<lparr>threads = [demo_thread],
      conversations =
        [\<lparr>thread_id = 1, role = str ''user'', content = str ''earlier'', model = None,
          token_count = Some 7\<rparr>],
      select_conversations_raises = Some (str ''canceling statement due to statement timeout''),
      commit_raises = None, transaction_aborted = False,
      in_failed_transaction = aborted_text\<rparr>"

section \<open>Properties of the usage throttle\<close>

lemma py_int_nonneg: "0 \<le> x \<Longrightarrow> py_int x = \<lfloor>x\<rfloor>"
  by (simp add: py_int_def)

lemma reset_fresh:
  "now - last_reset u > 60 \<Longrightarrow> check_and_reset_counters now u = fresh_window now"
  by (simp add: check_and_reset_counters_def fresh_window_def)

lemma reset_of_fresh: "check_and_reset_counters now (fresh_window now) = fresh_window now"
  by (simp add: check_and_reset_counters_def fresh_window_def)

lemma exec_expired:
  "call_time c - last_reset u > 60 \<Longrightarrow> exec cfg c u = exec cfg c (fresh_window (call_time c))"
  by (cases c)
    (simp_all add: track_request_def check_token_rate_limit_def get_rate_limit_status_def
      reset_fresh reset_of_fresh)

lemma run_append: "run cfg (xs @ ys) u = run cfg ys (run cfg xs u)"
  by (induction xs arbitrary: u) simp_all

text \<open>
  C3, as stated, fails: \<^verbatim>\<open>reset_after_seconds\<close> is \<^verbatim>\<open>int(time_until_reset)\<close>, a whole
  number of seconds. Half a second into a fresh window the code reports 59 where
  \<open>max(0, 60 - (now - windowStart))\<close> is 59.5.
\<close>

theorem status_reset_after_counterexample:
  "real_of_int (reset_after_seconds (requests (fst
      (get_rate_limit_status default_settings (1/2) (1/2) (fresh_window 0)))))
     \<noteq> max 0 (60 - (1/2 - last_reset (check_and_reset_counters (1/2) (fresh_window 0))))"
  by (simp add: get_rate_limit_status_def check_and_reset_counters_def fresh_window_def
      py_int_def Let_def)

text \<open>
  The tokens budget is computed without the floor that the requests budget has: with a
  negative configured token limit the reported remaining tokens are negative.
\<close>

lemma status_tokens_remaining_unfloored:
  "remaining (tokens (fst (get_rate_limit_status
      \<lparr>REQUESTS_PER_MINUTE = 60, TOKENS_PER_MINUTE = - 1\<rparr> 0 0 (fresh_window 0)))) = - 1"
  by (simp add: get_rate_limit_status_def check_and_reset_counters_def fresh_window_def Let_def)

text \<open>
  C3 (amended). For every window state \<open>u\<close> and clock readings, with \<open>w\<close> the window after
  the reset check: the status leaves the state at \<open>w\<close>; both budgets report their limit and
  their used count; the requests budget reports \<open>remaining = max(0, limit - used)\<close>; the
  tokens budget reports \<open>remaining = max(0, limit - used)\<close> whenever the tokens used do
  not exceed the token limit; and both report \<open>reset_after_seconds\<close> as
  \<open>max(0, 60 - (now - windowStart))\<close> rounded down to whole seconds.
\<close>

theorem status_amended:
  "let w = check_and_reset_counters t_check u;
       st = fst (get_rate_limit_status cfg t_check t_read u)
   in snd (get_rate_limit_status cfg t_check t_read u) = w \<and>
      limit (requests st) = REQUESTS_PER_MINUTE cfg \<and>
      used (requests st) = requests_used w \<and>
      remaining (requests st) = max 0 (REQUESTS_PER_MINUTE cfg - requests_used w) \<and>
      limit (tokens st) = TOKENS_PER_MINUTE cfg \<and>
      used (tokens st) = tokens_used w \<and>
      (tokens_used w \<le> TOKENS_PER_MINUTE cfg \<longrightarrow>
         remaining (tokens st) = max 0 (TOKENS_PER_MINUTE cfg - tokens_used w)) \<and>
      reset_after_seconds (requests st) = \<lfloor>max 0 (60 - (t_read - last_reset w))\<rfloor> \<and>
      reset_after_seconds (tokens st) = \<lfloor>max 0 (60 - (t_read - last_reset w))\<rfloor>"
  by (simp add: get_rate_limit_status_def Let_def py_int_nonneg)

theorem status_amended_witness:
  "tokens_used (check_and_reset_counters 10
       \<lparr>last_reset = 0, tokens_used = 100, requests_used = 61\<rparr>)
      \<le> TOKENS_PER_MINUTE default_settings \<and>
   remaining (requests (fst (get_rate_limit_status default_settings 10 (21/2)
       \<lparr>last_reset = 0, tokens_used = 100, requests_used = 61\<rparr>))) = 0 \<and>
   remaining (tokens (fst (get_rate_limit_status default_settings 10 (21/2)
       \<lparr>last_reset = 0, tokens_used = 100, requests_used = 61\<rparr>))) = 59900 \<and>
   reset_after_seconds (tokens (fst (get_rate_limit_status default_settings 10 (21/2)
       \<lparr>last_reset = 0, tokens_used = 100, requests_used = 61\<rparr>))) = 49"
  using status_amended [where t_check = 10 and t_read = "21/2" and cfg = default_settings
      and u = "\<lparr>last_reset = 0, tokens_used = 100, requests_used = 61\<rparr>"]
  by (simp add: check_and_reset_counters_def default_settings_def Let_def)

text \<open>
  C4. For every window state \<open>u\<close>, with \<open>w\<close> the window after the reset check:
  \<^verbatim>\<open>track_request\<close> raises \<open>RateLimitError("Request", REQUESTS_PER_MINUTE)\<close> and leaves the
  state at \<open>w\<close> when \<open>requests_used w \<ge> REQUESTS_PER_MINUTE\<close>, and otherwise succeeds with
  \<open>requests_used\<close> increased by exactly 1 and nothing else changed;
  \<^verbatim>\<open>check_token_rate_limit n\<close> returns \<open>False\<close> and leaves the state at \<open>w\<close> when
  \<open>tokens_used w + n > TOKENS_PER_MINUTE\<close>, and otherwise returns \<open>True\<close> with \<open>tokens_used\<close>
  increased by exactly \<open>n\<close> and nothing else changed.
\<close>

theorem admit_request_and_tokens:
  "let w = check_and_reset_counters now u in
     (requests_used w \<ge> REQUESTS_PER_MINUTE cfg \<longrightarrow>
        track_request cfg now u =
          (Inl (RateLimitError (str ''Request'') (REQUESTS_PER_MINUTE cfg)), w)) \<and>
     (\<not> requests_used w \<ge> REQUESTS_PER_MINUTE cfg \<longrightarrow>
        fst (track_request cfg now u) = Inr () \<and>
        requests_used (snd (track_request cfg now u)) = requests_used w + 1 \<and>
        tokens_used (snd (track_request cfg now u)) = tokens_used w \<and>
        last_reset (snd (track_request cfg now u)) = last_reset w) \<and>
     (tokens_used w + n > TOKENS_PER_MINUTE cfg \<longrightarrow>
        check_token_rate_limit cfg now n u = (False, w)) \<and>
     (\<not> tokens_used w + n > TOKENS_PER_MINUTE cfg \<longrightarrow>
        fst (check_token_rate_limit cfg now n u) = True \<and>
        tokens_used (snd (check_token_rate_limit cfg now n u)) = tokens_used w + n \<and>
        requests_used (snd (check_token_rate_limit cfg now n u)) = requests_used w \<and>
        last_reset (snd (check_token_rate_limit cfg now n u)) = last_reset w)"
  by (simp add: track_request_def check_token_rate_limit_def Let_def)

theorem admit_request_and_tokens_witness:
  "requests_used (check_and_reset_counters 10
       \<lparr>last_reset = 0, tokens_used = 59998, requests_used = 60\<rparr>)
     \<ge> REQUESTS_PER_MINUTE default_settings \<and>
   track_request default_settings 10
       \<lparr>last_reset = 0, tokens_used = 59998, requests_used = 60\<rparr>
     = (Inl (RateLimitError (str ''Request'') 60),
        \<lparr>last_reset = 0, tokens_used = 59998, requests_used = 60\<rparr>) \<and>
   \<not> requests_used (check_and_reset_counters 10
       \<lparr>last_reset = 0, tokens_used = 59998, requests_used = 59\<rparr>)
     \<ge> REQUESTS_PER_MINUTE default_settings \<and>
   track_request default_settings 10
       \<lparr>last_reset = 0, tokens_used = 59998, requests_used = 59\<rparr>
     = (Inr (), \<lparr>last_reset = 0, tokens_used = 59998, requests_used = 60\<rparr>) \<and>
   tokens_used (check_and_reset_counters 10
       \<lparr>last_reset = 0, tokens_used = 59998, requests_used = 60\<rparr>) + 3
     > TOKENS_PER_MINUTE default_settings \<and>
   check_token_rate_limit default_settings 10 3
       \<lparr>last_reset = 0, tokens_used = 59998, requests_used = 60\<rparr>
     = (False, \<lparr>last_reset = 0, tokens_used = 59998, requests_used = 60\<rparr>) \<and>
   \<not> tokens_used (check_and_reset_counters 10
       \<lparr>last_reset = 0, tokens_used = 59998, requests_used = 60\<rparr>) + 2
     > TOKENS_PER_MINUTE default_settings \<and>
   check_token_rate_limit default_settings 10 2
       \<lparr>last_reset = 0, tokens_used = 59998, requests_used = 60\<rparr>
     = (True, \<lparr>last_reset = 0, tokens_used = 60000, requests_used = 60\<rparr>)"
  using admit_request_and_tokens [where now = 10 and cfg = default_settings and n = 3
          and u = "\<lparr>last_reset = 0, tokens_used = 59998, requests_used = 60\<rparr>"]
        admit_request_and_tokens [where now = 10 and cfg = default_settings and n = 2
          and u = "\<lparr>last_reset = 0, tokens_used = 59998, requests_used = 59\<rparr>"]
        admit_request_and_tokens [where now = 10 and cfg = default_settings and n = 2
          and u = "\<lparr>last_reset = 0, tokens_used = 59998, requests_used = 60\<rparr>"]
  by (simp add: check_and_reset_counters_def default_settings_def Let_def prod_eq_iff)

text \<open>
  C8. Whenever an operation observes \<open>now - last_reset > 60\<close>, the reset check replaces the
  window by the fresh one (\<open>last_reset = now\<close>, both counters zero) and the operation reads
  and mutates that fresh window: its result and the state it leaves are those it has on
  the fresh window. Hence, for every sequence of calls, if a call \<open>c\<close> observes the expiry
  after the calls \<open>pre\<close>, the state after the whole sequence is the state reached from the
  fresh window by \<open>c\<close> and the calls after it: nothing of \<open>pre\<close> or of the earlier state is
  left in the counters.
\<close>

theorem window_reset_first:
  "(now - last_reset u > 60 \<longrightarrow>
      check_and_reset_counters now u = fresh_window now \<and>
      track_request cfg now u = track_request cfg now (fresh_window now) \<and>
      check_token_rate_limit cfg now n u = check_token_rate_limit cfg now n (fresh_window now) \<and>
      get_rate_limit_status cfg now t_read u =
        get_rate_limit_status cfg now t_read (fresh_window now)) \<and>
   (call_time c - last_reset (run cfg pre u) > 60 \<longrightarrow>
      run cfg (pre @ c # post) u = run cfg (c # post) (fresh_window (call_time c)))"
proof (intro conjI impI)
  assume expired: "now - last_reset u > 60"
  then show r: "check_and_reset_counters now u = fresh_window now"
    by (rule reset_fresh)
  show "track_request cfg now u = track_request cfg now (fresh_window now)"
    by (simp add: track_request_def r reset_of_fresh)
  show "check_token_rate_limit cfg now n u = check_token_rate_limit cfg now n (fresh_window now)"
    by (simp add: check_token_rate_limit_def r reset_of_fresh)
  show "get_rate_limit_status cfg now t_read u =
      get_rate_limit_status cfg now t_read (fresh_window now)"
    by (simp add: get_rate_limit_status_def r reset_of_fresh)
next
  assume "call_time c - last_reset (run cfg pre u) > 60"
  then have "exec cfg c (run cfg pre u) = exec cfg c (fresh_window (call_time c))"
    by (rule exec_expired)
  then show "run cfg (pre @ c # post) u = run cfg (c # post) (fresh_window (call_time c))"
    by (simp add: run_append)
qed

theorem window_reset_first_witness:
  "61 - last_reset \<lparr>last_reset = 0, tokens_used = 50, requests_used = 60\<rparr> > 60 \<and>
   track_request default_settings 61 \<lparr>last_reset = 0, tokens_used = 50, requests_used = 60\<rparr>
     = (Inr (), \<lparr>last_reset = 61, tokens_used = 0, requests_used = 1\<rparr>) \<and>
   call_time (AdmitTokens 70 5)
     - last_reset (run default_settings [AdmitRequest 1, AdmitTokens 2 30] (fresh_window 0)) > 60 \<and>
   run default_settings
       ([AdmitRequest 1, AdmitTokens 2 30] @ AdmitTokens 70 5 # [AdmitRequest 71, Status 72 73])
       (fresh_window 0)
     = \<lparr>last_reset = 70, tokens_used = 5, requests_used = 1\<rparr>"
proof -
  let ?u = "\<lparr>last_reset = 0, tokens_used = 50, requests_used = 60\<rparr>"
  let ?pre = "[AdmitRequest 1, AdmitTokens 2 30]"
  let ?post = "[AdmitRequest 71, Status 72 73]"
  have h1: "61 - last_reset ?u > 60"
    by simp
  have h2: "call_time (AdmitTokens 70 5)
      - last_reset (run default_settings ?pre (fresh_window 0)) > 60"
    by (simp add: track_request_def check_token_rate_limit_def check_and_reset_counters_def
        fresh_window_def default_settings_def Let_def)
  have a: "track_request default_settings 61 ?u
      = track_request default_settings 61 (fresh_window 61)"
    using window_reset_first [where now = 61 and u = ?u and cfg = default_settings] h1
    by blast
  have b: "run default_settings (?pre @ AdmitTokens 70 5 # ?post) (fresh_window 0)
      = run default_settings (AdmitTokens 70 5 # ?post) (fresh_window (call_time (AdmitTokens 70 5)))"
    using window_reset_first [where c = "AdmitTokens 70 5" and pre = ?pre and post = ?post
        and u = "fresh_window 0" and cfg = default_settings] h2
    by blast
  have a': "track_request default_settings 61 (fresh_window 61)
      = (Inr (), \<lparr>last_reset = 61, tokens_used = 0, requests_used = 1\<rparr>)"
    by (simp add: track_request_def check_and_reset_counters_def fresh_window_def
        default_settings_def Let_def)
  have b': "run default_settings (AdmitTokens 70 5 # ?post) (fresh_window 70)
      = \<lparr>last_reset = 70, tokens_used = 5, requests_used = 1\<rparr>"
    by (simp add: track_request_def check_token_rate_limit_def get_rate_limit_status_def
        check_and_reset_counters_def fresh_window_def default_settings_def Let_def)
  show ?thesis
    using h1 h2 a a' b b' by simp
qed

section \<open>Properties of the store operations\<close>

lemma token_count_or_counted:
  "token_count_or enc \<lparr>msg_content = t, msg_model = m, msg_token_count = Some (count_tokens enc t)\<rparr>
     = count_tokens enc t"
  by (simp add: token_count_or_def)

lemma get_thread_usable: "get_thread db tid = Inr x \<Longrightarrow> execute_raises db = None"
  by (simp add: get_thread_def split: option.splits)

lemma get_thread_aborted:
  "transaction_aborted db \<Longrightarrow> get_thread db tid = Inl (in_failed_transaction db)"
  by (simp add: get_thread_def execute_raises_def)

lemma add_messages_missing_thread:
  "get_thread db tid = Inr None \<Longrightarrow>
     add_messages_to_thread enc db now tid user_message assistant_response = Inr (False, db)"
  by (simp add: add_messages_to_thread_def)

lemma add_messages_aborted:
  "transaction_aborted db \<Longrightarrow>
     add_messages_to_thread enc db now tid user_message assistant_response
       = Inl (in_failed_transaction db)"
  by (simp add: add_messages_to_thread_def get_thread_aborted)

lemma add_messages_commit_raises:
  "get_thread db tid = Inr (Some th) \<Longrightarrow> commit_raises db = Some e \<Longrightarrow>
     add_messages_to_thread enc db now tid user_message assistant_response = Inl e"
  by (frule get_thread_usable)
    (simp add: add_messages_to_thread_def create_conversation_def commit_def execute_raises_def
      split: option.splits if_splits)

lemma add_user_message:
  "get_thread db tid = Inr (Some th) \<Longrightarrow> commit_raises db = None \<Longrightarrow>
     add_messages_to_thread enc db now tid
         (Some \<lparr>msg_content = q, msg_model = None, msg_token_count = Some (count_tokens enc q)\<rparr>)
         None
       = Inr (True, touch_thread now tid
                (db\<lparr>conversations := conversations db @ [user_turn enc tid q]\<rparr>))"
  by (frule get_thread_usable)
    (simp add: add_messages_to_thread_def create_conversation_def commit_def execute_raises_def
      user_turn_def token_count_or_counted split: if_splits)

lemma add_assistant_response:
  "get_thread db tid = Inr (Some th) \<Longrightarrow> commit_raises db = None \<Longrightarrow>
     add_messages_to_thread enc db now tid None
         (Some \<lparr>msg_content = a, msg_model = Some m, msg_token_count = Some (count_tokens enc a)\<rparr>)
       = Inr (True, touch_thread now tid
                (db\<lparr>conversations := conversations db @ [model_turn enc tid m a]\<rparr>))"
  by (frule get_thread_usable)
    (simp add: add_messages_to_thread_def create_conversation_def commit_def execute_raises_def
      model_turn_def token_count_or_counted split: if_splits)

lemma get_thread_one_thread: "get_thread one_thread 1 = Inr (Some demo_thread)"
  by (simp add: get_thread_def execute_raises_def one_thread_def demo_thread_def)

lemma get_thread_no_threads: "get_thread no_threads tid = Inr None"
  by (simp add: get_thread_def execute_raises_def no_threads_def)

section \<open>Properties of the streaming loop\<close>

lemma for_loop_append:
  "for_loop cfg enc dumps (pre @ rest) acc u =
     (case for_loop cfg enc dumps pre acc u of
        (Exhausted, a, evs, u') \<Rightarrow>
          (case for_loop cfg enc dumps rest a u' of
             (e, a', evs', u'') \<Rightarrow> (e, a', evs @ evs', u''))
      | r \<Rightarrow> r)"
proof (induction cfg enc dumps pre acc u rule: for_loop.induct)
  case (1 cfg enc dumps acc u)
  then show ?case by (simp split: prod.splits)
next
  case (2 cfg enc dumps e response acc u)
  then show ?case by simp
next
  case (3 cfg enc dumps now response acc u)
  then show ?case by simp
next
  case (4 cfg enc dumps now new_text response acc u)
  then show ?case
    by (auto simp: Let_def split: prod.splits bool.splits loop_end.splits)
qed

lemma for_loop_exhausted:
  "for_loop cfg enc dumps items acc u = (Exhausted, a, evs, u') \<Longrightarrow>
     a = acc @ concat (fragments items) \<and> evs = map (sse_content dumps) (fragments items)"
proof (induction cfg enc dumps items acc u arbitrary: a evs u' rule: for_loop.induct)
  case (4 cfg enc dumps now new_text response acc u)
  then show ?case
    by (auto simp: Let_def split: prod.splits bool.splits if_splits)
qed simp_all

lemma for_loop_truncated_last:
  "for_loop cfg enc dumps items acc u = (Truncated, a, evs, u') \<Longrightarrow>
     evs \<noteq> [] \<and> last evs = sse_done"
proof (induction cfg enc dumps items acc u arbitrary: a evs u' rule: for_loop.induct)
  case (4 cfg enc dumps now new_text response acc u)
  then show ?case
    by (auto simp: Let_def split: prod.splits bool.splits if_splits)
qed simp_all

lemma sse_content_not_done: "sse_content dumps t \<noteq> sse_done"
  by (simp add: sse_content_def sse_done_def str_def)

lemma for_loop_refused:
  assumes "t \<noteq> []"
    and "for_loop cfg enc dumps pre acc u = (Exhausted, a, evs, u1)"
    and "\<not> fst (check_token_rate_limit cfg now (count_tokens enc t) u1)"
  shows "for_loop cfg enc dumps (pre @ Chunk now (Some t) # rest) acc u =
           (Truncated, a @ t,
            map (sse_content dumps) (fragments pre)
              @ [sse_content dumps truncation_notice, sse_done],
            snd (check_token_rate_limit cfg now (count_tokens enc t) u1))"
proof -
  have evs: "evs = map (sse_content dumps) (fragments pre)"
    using for_loop_exhausted [OF assms(2)] by simp
  obtain ok u2 where c: "check_token_rate_limit cfg now (count_tokens enc t) u1 = (ok, u2)"
    by (cases "check_token_rate_limit cfg now (count_tokens enc t) u1")
  with assms(3) have "ok = False" by simp
  with c assms(1,2) evs show ?thesis
    by (simp add: for_loop_append Let_def)
qed

lemma for_loop_raised:
  assumes "for_loop cfg enc dumps pre acc u = (Exhausted, a, evs, u1)"
  shows "for_loop cfg enc dumps (pre @ Raises e # rest) acc u =
           (Raised e, a, map (sse_content dumps) (fragments pre), u1)"
  using assms for_loop_exhausted [OF assms] by (simp add: for_loop_append)

lemma stream_response_last_done:
  "fst (stream_response gem cfg enc dumps now g db u) \<noteq> [] \<and>
   last (fst (stream_response gem cfg enc dumps now g db u)) = sse_done"
proof (cases "send_message_stream gem (gen_chat g) (gen_question g)")
  case (Inl e)
  then show ?thesis by (simp add: stream_response_def)
next
  case (Inr response)
  obtain en a evs u' where l: "for_loop cfg enc dumps response [] u = (en, a, evs, u')"
    by (cases "for_loop cfg enc dumps response [] u") auto
  show ?thesis
  proof (cases en)
    case Exhausted
    with Inr l show ?thesis
      by (simp add: stream_response_def split: sum.splits prod.splits)
  next
    case Truncated
    with Inr l for_loop_truncated_last [of cfg enc dumps response "[]" u a evs u']
    show ?thesis
      by (simp add: stream_response_def)
  next
    case (Raised e)
    with Inr l show ?thesis
      by (simp add: stream_response_def)
  qed
qed

section \<open>Properties of the chat stream\<close>

lemma stream_response_refused:
  assumes "send_message_stream gem (gen_chat g) (gen_question g)
             = Inr (pre @ Chunk t_chk (Some t) # rest)"
    and "t \<noteq> []"
    and "fst (for_loop cfg enc dumps pre [] u) = Exhausted"
    and "\<not> fst (check_token_rate_limit cfg t_chk (count_tokens enc t)
                 (snd (snd (snd (for_loop cfg enc dumps pre [] u)))))"
  shows "stream_response gem cfg enc dumps now g db u =
           (map (sse_content dumps) (fragments pre)
              @ [sse_content dumps truncation_notice, sse_done],
            db,
            snd (check_token_rate_limit cfg t_chk (count_tokens enc t)
                 (snd (snd (snd (for_loop cfg enc dumps pre [] u))))))"
proof -
  obtain a evs u1 where l: "for_loop cfg enc dumps pre [] u = (Exhausted, a, evs, u1)"
    using assms(3) by (cases "for_loop cfg enc dumps pre [] u") auto
  from assms(4) l have r: "\<not> fst (check_token_rate_limit cfg t_chk (count_tokens enc t) u1)"
    by simp
  show ?thesis
    using assms(1) l for_loop_refused [OF assms(2) l r, of rest]
    by (simp add: stream_response_def)
qed

lemma stream_response_raised:
  assumes "send_message_stream gem (gen_chat g) (gen_question g) = Inr (pre @ Raises e # rest)"
    and "fst (for_loop cfg enc dumps pre [] u) = Exhausted"
  shows "stream_response gem cfg enc dumps now g db u =
           (map (sse_content dumps) (fragments pre) @ [sse_content dumps (error_notice e), sse_done],
            db, snd (snd (snd (for_loop cfg enc dumps pre [] u))))"
proof -
  obtain a evs u1 where l: "for_loop cfg enc dumps pre [] u = (Exhausted, a, evs, u1)"
    using assms(2) by (cases "for_loop cfg enc dumps pre [] u") auto
  show ?thesis
    using assms(1) l for_loop_raised [OF l, of e rest]
    by (simp add: stream_response_def)
qed

lemma stream_response_exhausted:
  assumes "send_message_stream gem (gen_chat g) (gen_question g) = Inr items"
    and "fst (for_loop cfg enc dumps items [] u) = Exhausted"
  shows "stream_response gem cfg enc dumps now g db u =
           (case add_messages_to_thread enc db now (gen_thread_id g) None
                   (Some \<lparr>msg_content = concat (fragments items), msg_model = Some (gen_model g),
                          msg_token_count = Some (count_tokens enc (concat (fragments items)))\<rparr>) of
              Inl e \<Rightarrow> (map (sse_content dumps) (fragments items)
                          @ [sse_content dumps (error_notice e), sse_done], db,
                        snd (snd (snd (for_loop cfg enc dumps items [] u))))
            | Inr (_, db') \<Rightarrow> (map (sse_content dumps) (fragments items) @ [sse_done], db',
                        snd (snd (snd (for_loop cfg enc dumps items [] u)))))"
proof -
  obtain a evs u1 where l: "for_loop cfg enc dumps items [] u = (Exhausted, a, evs, u1)"
    using assms(2) by (cases "for_loop cfg enc dumps items [] u") auto
  from for_loop_exhausted [OF l] have "a = concat (fragments items)"
    and "evs = map (sse_content dumps) (fragments items)" by simp_all
  with assms(1) l show ?thesis
    by (simp add: stream_response_def split: sum.splits prod.splits)
qed

text \<open>
  C6. When the stream is \<open>pre\<close>, then a chunk with non-empty text \<open>t\<close>, then \<open>rest\<close>, the
  loop runs through \<open>pre\<close> without a refusal or an exception, and the token check of \<open>t\<close>
  returns false, the events of the stream are exactly the fragments of \<open>pre\<close> as content
  events, then the truncation notice, then the terminal sentinel: \<open>t\<close> is not forwarded
  and nothing of \<open>rest\<close> is. With a token limit of 5, one token per code point and the
  fragments "aaaaa", "bbbbb", the events are "aaaaa", the notice and the sentinel.
\<close>

theorem truncation_stops_forwarding:
  "send_message_stream gem (gen_chat g) (gen_question g)
       = Inr (pre @ Chunk t_chk (Some t) # rest) \<Longrightarrow>
   t \<noteq> [] \<Longrightarrow>
   fst (for_loop cfg enc dumps pre [] u) = Exhausted \<Longrightarrow>
   \<not> fst (check_token_rate_limit cfg t_chk (count_tokens enc t)
            (snd (snd (snd (for_loop cfg enc dumps pre [] u))))) \<Longrightarrow>
   fst (stream_response gem cfg enc dumps now g db u) =
     map (sse_content dumps) (fragments pre) @ [sse_content dumps truncation_notice, sse_done]"
  by (simp add: stream_response_refused)

lemma eval_first_chunk:
  "for_loop five_tokens len_encoder plain_dumps [Chunk 1 (Some (str ''aaaaa''))] [] (fresh_window 0)
     = (Exhausted, str ''aaaaa'', [sse_content plain_dumps (str ''aaaaa'')],
        \<lparr>last_reset = 0, tokens_used = 5, requests_used = 0\<rparr>)"
  by (simp add: five_tokens_def len_encoder_def count_tokens_def check_token_rate_limit_def
      check_and_reset_counters_def fresh_window_def str_def Let_def)

theorem truncation_stops_forwarding_witness:
  "send_message_stream (scripted aaaaa_bbbbb) (gen_chat demo_generator) (gen_question demo_generator)
       = Inr ([Chunk 1 (Some (str ''aaaaa''))] @ Chunk 2 (Some (str ''bbbbb'')) # []) \<and>
   str ''bbbbb'' \<noteq> [] \<and>
   fst (for_loop five_tokens len_encoder plain_dumps [Chunk 1 (Some (str ''aaaaa''))] []
          (fresh_window 0)) = Exhausted \<and>
   \<not> fst (check_token_rate_limit five_tokens 2 (count_tokens len_encoder (str ''bbbbb''))
            (snd (snd (snd (for_loop five_tokens len_encoder plain_dumps
               [Chunk 1 (Some (str ''aaaaa''))] [] (fresh_window 0)))))) \<and>
   fst (stream_response (scripted aaaaa_bbbbb) five_tokens len_encoder plain_dumps 3
          demo_generator one_thread (fresh_window 0)) =
     [sse_content plain_dumps (str ''aaaaa''), sse_content plain_dumps truncation_notice, sse_done]"
proof -
  have h1: "send_message_stream (scripted aaaaa_bbbbb) (gen_chat demo_generator)
       (gen_question demo_generator)
       = Inr ([Chunk 1 (Some (str ''aaaaa''))] @ Chunk 2 (Some (str ''bbbbb'')) # [])"
    by (simp add: scripted_def aaaaa_bbbbb_def)
  have h2: "str ''bbbbb'' \<noteq> []"
    by (simp add: str_def)
  have h3: "fst (for_loop five_tokens len_encoder plain_dumps [Chunk 1 (Some (str ''aaaaa''))] []
          (fresh_window 0)) = Exhausted"
    unfolding eval_first_chunk by simp
  have h4: "\<not> fst (check_token_rate_limit five_tokens 2 (count_tokens len_encoder (str ''bbbbb''))
            (snd (snd (snd (for_loop five_tokens len_encoder plain_dumps
               [Chunk 1 (Some (str ''aaaaa''))] [] (fresh_window 0))))))"
    unfolding eval_first_chunk
    by (simp add: five_tokens_def len_encoder_def count_tokens_def
        check_token_rate_limit_def check_and_reset_counters_def str_def Let_def)
  have f: "fragments [Chunk 1 (Some (str ''aaaaa''))] = [str ''aaaaa'']"
    by (simp add: str_def)
  show ?thesis
    using h1 h2 h3 h4 truncation_stops_forwarding [OF h1 h2 h3 h4, of 3 one_thread] f
    by simp
qed

lemma eval_aaaaa_bbbbb:
  "stream_response (scripted aaaaa_bbbbb) five_tokens len_encoder plain_dumps 3
       demo_generator one_thread (fresh_window 0)
     = ([sse_content plain_dumps (str ''aaaaa''), sse_content plain_dumps truncation_notice, sse_done],
        one_thread, \<lparr>last_reset = 0, tokens_used = 5, requests_used = 0\<rparr>)"
  by (simp add: stream_response_def scripted_def aaaaa_bbbbb_def five_tokens_def len_encoder_def
      count_tokens_def check_token_rate_limit_def check_and_reset_counters_def fresh_window_def
      str_def Let_def)

text \<open>
  C1, as stated, fails. With a token limit of 5, one token per code point and the fragments
  "aaaaa", "bbbbb" on an existing thread, "aaaaa" is forwarded, the stream is truncated,
  and the store holds no conversation row afterwards: the truncation branch returns
  before \<^verbatim>\<open>add_messages_to_thread\<close> is reached.
\<close>

theorem truncated_turn_counterexample:
  "fst (stream_response (scripted aaaaa_bbbbb) five_tokens len_encoder plain_dumps 3
         demo_generator one_thread (fresh_window 0))
     = [sse_content plain_dumps (str ''aaaaa''), sse_content plain_dumps truncation_notice,
        sse_done] \<and>
   get_thread one_thread (gen_thread_id demo_generator) = Inr (Some demo_thread) \<and>
   conversations (fst (snd (stream_response (scripted aaaaa_bbbbb) five_tokens len_encoder
         plain_dumps 3 demo_generator one_thread (fresh_window 0)))) = []"
  unfolding eval_aaaaa_bbbbb
  by (simp add: one_thread_def demo_thread_def demo_generator_def get_thread_def
      execute_raises_def)

text \<open>
  C1 (amended). For every stream in which the token check of some non-empty fragment
  returns false (after a prefix the loop ran through without a refusal or an exception),
  the orchestrator persists nothing: the store after the stream is the store before it,
  so no model-role turn is written for a truncated stream; the events end with the
  truncation notice and the sentinel.
\<close>

theorem truncated_stream_persists_nothing:
  "send_message_stream gem (gen_chat g) (gen_question g)
       = Inr (pre @ Chunk t_chk (Some t) # rest) \<Longrightarrow>
   t \<noteq> [] \<Longrightarrow>
   fst (for_loop cfg enc dumps pre [] u) = Exhausted \<Longrightarrow>
   \<not> fst (check_token_rate_limit cfg t_chk (count_tokens enc t)
            (snd (snd (snd (for_loop cfg enc dumps pre [] u))))) \<Longrightarrow>
   fst (snd (stream_response gem cfg enc dumps now g db u)) = db \<and>
   (\<exists>forwarded. fst (stream_response gem cfg enc dumps now g db u)
        = forwarded @ [sse_content dumps truncation_notice, sse_done])"
  by (simp add: stream_response_refused)

theorem truncated_stream_persists_nothing_witness:
  "send_message_stream (scripted aaaaa_bbbbb) (gen_chat demo_generator) (gen_question demo_generator)
       = Inr ([Chunk 1 (Some (str ''aaaaa''))] @ Chunk 2 (Some (str ''bbbbb'')) # []) \<and>
   str ''bbbbb'' \<noteq> [] \<and>
   fst (for_loop five_tokens len_encoder plain_dumps [Chunk 1 (Some (str ''aaaaa''))] []
          (fresh_window 0)) = Exhausted \<and>
   \<not> fst (check_token_rate_limit five_tokens 2 (count_tokens len_encoder (str ''bbbbb''))
            (snd (snd (snd (for_loop five_tokens len_encoder plain_dumps
               [Chunk 1 (Some (str ''aaaaa''))] [] (fresh_window 0)))))) \<and>
   fst (snd (stream_response (scripted aaaaa_bbbbb) five_tokens len_encoder plain_dumps 3
          demo_generator one_thread (fresh_window 0))) = one_thread"
proof -
  have h1: "send_message_stream (scripted aaaaa_bbbbb) (gen_chat demo_generator)
       (gen_question demo_generator)
       = Inr ([Chunk 1 (Some (str ''aaaaa''))] @ Chunk 2 (Some (str ''bbbbb'')) # [])"
    by (simp add: scripted_def aaaaa_bbbbb_def)
  have h2: "str ''bbbbb'' \<noteq> []"
    by (simp add: str_def)
  have h3: "fst (for_loop five_tokens len_encoder plain_dumps [Chunk 1 (Some (str ''aaaaa''))] []
          (fresh_window 0)) = Exhausted"
    unfolding eval_first_chunk by simp
  have h4: "\<not> fst (check_token_rate_limit five_tokens 2 (count_tokens len_encoder (str ''bbbbb''))
            (snd (snd (snd (for_loop five_tokens len_encoder plain_dumps
               [Chunk 1 (Some (str ''aaaaa''))] [] (fresh_window 0))))))"
    unfolding eval_first_chunk
    by (simp add: five_tokens_def len_encoder_def count_tokens_def
        check_token_rate_limit_def check_and_reset_counters_def str_def Let_def)
  from truncated_stream_persists_nothing [OF h1 h2 h3 h4, where now = 3 and db = one_thread]
  have "fst (snd (stream_response (scripted aaaaa_bbbbb) five_tokens len_encoder plain_dumps 3
          demo_generator one_thread (fresh_window 0))) = one_thread"
    by blast
  with h1 h2 h3 h4 show ?thesis
    by blast
qed

lemma eval_hello_world_loop:
  "for_loop default_settings len_encoder plain_dumps hello_world [] (fresh_window 0)
     = (Exhausted, str ''Hello world'',
        [sse_content plain_dumps (str ''Hel''), sse_content plain_dumps (str ''lo''),
         sse_content plain_dumps (str '' world'')],
        \<lparr>last_reset = 0, tokens_used = 11, requests_used = 0\<rparr>)"
  by (simp add: hello_world_def default_settings_def len_encoder_def count_tokens_def
      check_token_rate_limit_def check_and_reset_counters_def fresh_window_def str_def Let_def)

lemma fragments_hello_world: "concat (fragments hello_world) = str ''Hello world''"
  by (simp add: hello_world_def str_def)

text \<open>
  C5, as stated, fails when the thread of the stream is not in the store: the fragments
  "Hel", "lo", " world" are consumed to exhaustion without truncation or exception, and
  no conversation row is written, because \<^verbatim>\<open>add_messages_to_thread\<close> returns \<^verbatim>\<open>False\<close>
  for a missing thread and the caller ignores the result.
\<close>

theorem missing_thread_counterexample:
  "send_message_stream (scripted hello_world) (gen_chat demo_generator) (gen_question demo_generator)
     = Inr hello_world \<and>
   fst (for_loop default_settings len_encoder plain_dumps hello_world [] (fresh_window 0))
     = Exhausted \<and>
   commit_raises no_threads = None \<and>
   fst (stream_response (scripted hello_world) default_settings len_encoder plain_dumps 4
         demo_generator no_threads (fresh_window 0))
     = [sse_content plain_dumps (str ''Hel''), sse_content plain_dumps (str ''lo''),
        sse_content plain_dumps (str '' world''), sse_done] \<and>
   conversations (fst (snd (stream_response (scripted hello_world) default_settings len_encoder
         plain_dumps 4 demo_generator no_threads (fresh_window 0)))) = []"
proof -
  have s: "send_message_stream (scripted hello_world) (gen_chat demo_generator)
      (gen_question demo_generator) = Inr hello_world"
    by (simp add: scripted_def)
  have m: "get_thread no_threads (gen_thread_id demo_generator) = Inr None"
    by (rule get_thread_no_threads)
  have "stream_response (scripted hello_world) default_settings len_encoder plain_dumps 4
         demo_generator no_threads (fresh_window 0)
     = ([sse_content plain_dumps (str ''Hel''), sse_content plain_dumps (str ''lo''),
        sse_content plain_dumps (str '' world''), sse_done], no_threads,
        \<lparr>last_reset = 0, tokens_used = 11, requests_used = 0\<rparr>)"
    by (simp add: stream_response_def s eval_hello_world_loop add_messages_missing_thread [OF m])
  then show ?thesis
    using s by (simp add: eval_hello_world_loop no_threads_def)
qed

text \<open>
  C5 (amended). For every stream that is consumed to exhaustion with no truncation and no
  exception, on a thread that exists in the store and with no failing commit, the events
  are the fragments in arrival order followed by the sentinel, and exactly one row is
  appended to the conversations: a model-role turn of that thread whose content is the
  concatenation of all fragments in arrival order, whose token count is
  \<^verbatim>\<open>count_tokens\<close> of that content, and whose model is the requested model id. The thread's
  \<^verbatim>\<open>updated_at\<close> is set; nothing else changes.
\<close>

theorem completed_stream_persists_one_turn:
  "send_message_stream gem (gen_chat g) (gen_question g) = Inr items \<Longrightarrow>
   fst (for_loop cfg enc dumps items [] u) = Exhausted \<Longrightarrow>
   commit_raises db = None \<Longrightarrow>
   get_thread db (gen_thread_id g) = Inr (Some th) \<Longrightarrow>
   fst (stream_response gem cfg enc dumps now g db u)
     = map (sse_content dumps) (fragments items) @ [sse_done] \<and>
   fst (snd (stream_response gem cfg enc dumps now g db u))
     = touch_thread now (gen_thread_id g)
         (db\<lparr>conversations := conversations db
               @ [model_turn enc (gen_thread_id g) (gen_model g) (concat (fragments items))]\<rparr>) \<and>
   conversations (fst (snd (stream_response gem cfg enc dumps now g db u)))
     = conversations db
         @ [\<lparr>thread_id = gen_thread_id g, role = str ''model'',
             content = concat (fragments items), model = Some (gen_model g),
             token_count = Some (count_tokens enc (concat (fragments items)))\<rparr>]"
proof -
  assume s: "send_message_stream gem (gen_chat g) (gen_question g) = Inr items"
    and l: "fst (for_loop cfg enc dumps items [] u) = Exhausted"
    and c: "commit_raises db = None"
    and th: "get_thread db (gen_thread_id g) = Inr (Some th)"
  show ?thesis
    by (simp add: stream_response_exhausted [OF s l] add_assistant_response [OF th c]
        touch_thread_def model_turn_def)
qed

theorem completed_stream_persists_one_turn_witness:
  "send_message_stream (scripted hello_world) (gen_chat demo_generator) (gen_question demo_generator)
     = Inr hello_world \<and>
   fst (for_loop default_settings len_encoder plain_dumps hello_world [] (fresh_window 0))
     = Exhausted \<and>
   commit_raises one_thread = None \<and>
   get_thread one_thread (gen_thread_id demo_generator) = Inr (Some demo_thread) \<and>
   conversations (fst (snd (stream_response (scripted hello_world) default_settings len_encoder
         plain_dumps 4 demo_generator one_thread (fresh_window 0))))
     = [\<lparr>thread_id = 1, role = str ''model'', content = str ''Hello world'',
         model = Some (str ''gemini-2.0-flash''), token_count = Some 11\<rparr>]"
proof -
  have h1: "send_message_stream (scripted hello_world) (gen_chat demo_generator)
      (gen_question demo_generator) = Inr hello_world"
    by (simp add: scripted_def)
  have h2: "fst (for_loop default_settings len_encoder plain_dumps hello_world []
      (fresh_window 0)) = Exhausted"
    unfolding eval_hello_world_loop by simp
  have h3: "commit_raises one_thread = None"
    by (simp add: one_thread_def)
  have h4: "get_thread one_thread (gen_thread_id demo_generator) = Inr (Some demo_thread)"
    by (simp add: get_thread_def execute_raises_def one_thread_def demo_thread_def
        demo_generator_def)
  have n: "count_tokens len_encoder (str ''Hello world'') = 11"
    by (simp add: count_tokens_def len_encoder_def str_def)
  have c: "conversations one_thread = []"
    by (simp add: one_thread_def)
  have g: "gen_thread_id demo_generator = 1" "gen_model demo_generator = str ''gemini-2.0-flash''"
    by (simp_all add: demo_generator_def)
  from completed_stream_persists_one_turn [OF h1 h2 h3 h4, where now = 4]
  have "conversations (fst (snd (stream_response (scripted hello_world) default_settings
         len_encoder plain_dumps 4 demo_generator one_thread (fresh_window 0))))
     = conversations one_thread
         @ [\<lparr>thread_id = gen_thread_id demo_generator, role = str ''model'',
             content = concat (fragments hello_world), model = Some (gen_model demo_generator),
             token_count = Some (count_tokens len_encoder (concat (fragments hello_world)))\<rparr>]"
    by blast
  then show ?thesis
    using h1 h2 h3 h4 by (simp add: fragments_hello_world n c g)
qed


section \<open>Properties of the chat route\<close>

lemma stream_response_call_raises:
  "send_message_stream gem (gen_chat g) (gen_question g) = Inl e \<Longrightarrow>
     stream_response gem cfg enc dumps now g db u
       = ([sse_content dumps (error_notice e), sse_done], db, u)"
  by (simp add: stream_response_def)

lemma serve_chat_streaming:
  "fst (chat_with_thread gem enc now1 req tid db) = StreamingResponse g \<Longrightarrow>
     serve_chat gem cfg enc dumps now1 now2 req tid db u
       = (StreamingResponse g,
          stream_response gem cfg enc dumps now2 g (snd (chat_with_thread gem enc now1 req tid db)) u)"
  by (cases "chat_with_thread gem enc now1 req tid db")
    (simp add: serve_chat_def split: prod.splits)

lemma retrieve_ok:
  "execute_raises db = None \<Longrightarrow> select_conversations_raises db = None \<Longrightarrow>
     get_thread_messages_optimized db tid
       = (Inr (map (\<lambda>row. \<lparr>h_role = role row, parts = [content row]\<rparr>)
                 (filter (\<lambda>c. thread_id c = tid) (conversations db))), db)"
  by (simp add: get_thread_messages_optimized_def)

lemma retrieve_raises:
  "execute_raises db = None \<Longrightarrow> select_conversations_raises db = Some e \<Longrightarrow>
     get_thread_messages_optimized db tid = (Inl e, db\<lparr>transaction_aborted := True\<rparr>)"
  by (simp add: get_thread_messages_optimized_def)

lemma chat_with_thread_select_raises:
  "execute_raises db = None \<Longrightarrow> select_conversations_raises db = Some e \<Longrightarrow>
     chat_with_thread gem enc now req tid db
       = (HTTPException 500 (in_failed_transaction db), db\<lparr>transaction_aborted := True\<rparr>)"
  by (simp add: chat_with_thread_def retrieve_raises Let_def add_messages_aborted)

lemma chat_with_thread_existing:
  assumes "get_thread db tid = Inr (Some th)"
    and "fst (chat_with_thread gem enc now req tid db) = StreamingResponse g"
  shows "snd (chat_with_thread gem enc now req tid db)
           = touch_thread now tid
               (db\<lparr>conversations := conversations db @ [user_turn enc tid (question req)]\<rparr>)"
proof -
  have u: "execute_raises db = None"
    using assms(1) by (rule get_thread_usable)
  have s: "select_conversations_raises db = None"
  proof (cases "select_conversations_raises db")
    case (Some e)
    with assms(2) show ?thesis
      by (simp add: chat_with_thread_select_raises [OF u Some])
  qed simp
  show ?thesis
  proof (cases "commit_raises db")
    case None
    then show ?thesis
      by (simp add: chat_with_thread_def Let_def retrieve_ok [OF u s]
          add_user_message [OF assms(1) None])
  next
    case (Some e)
    then have "fst (chat_with_thread gem enc now req tid db) = HTTPException 500 e"
      by (simp add: chat_with_thread_def Let_def retrieve_ok [OF u s]
          add_messages_commit_raises [OF assms(1) Some])
    with assms(2) show ?thesis
      by simp
  qed
qed

lemma add_messages_appends:
  "add_messages_to_thread enc db now tid um am = Inr (b, db') \<Longrightarrow>
     \<exists>xs. conversations db' = conversations db @ xs"
  by (auto simp: add_messages_to_thread_def create_conversation_def touch_thread_def
      split: option.splits sum.splits)

lemma stream_response_appends:
  "\<exists>xs. conversations (fst (snd (stream_response gem cfg enc dumps now g db u)))
          = conversations db @ xs"
proof (cases "send_message_stream gem (gen_chat g) (gen_question g)")
  case (Inl e)
  then show ?thesis by (simp add: stream_response_def)
next
  case (Inr response)
  obtain en a evs u' where l: "for_loop cfg enc dumps response [] u = (en, a, evs, u')"
    by (cases "for_loop cfg enc dumps response [] u") auto
  show ?thesis
  proof (cases en)
    case Exhausted
    show ?thesis
    proof (cases "add_messages_to_thread enc db now (gen_thread_id g) None
        (Some \<lparr>msg_content = a, msg_model = Some (gen_model g),
               msg_token_count = Some (count_tokens enc a)\<rparr>)")
      case (Inl e)
      with Inr l Exhausted show ?thesis by (simp add: stream_response_def)
    next
      case (Inr r)
      obtain b db' where r: "r = (b, db')" by (cases r)
      from add_messages_appends [OF Inr [unfolded r]]
      obtain xs where "conversations db' = conversations db @ xs" ..
      with \<open>send_message_stream gem (gen_chat g) (gen_question g) = Inr response\<close> l Exhausted Inr r
      show ?thesis by (simp add: stream_response_def)
    qed
  next
    case Truncated
    with Inr l show ?thesis by (simp add: stream_response_def)
  next
    case (Raised e)
    with Inr l show ?thesis by (simp add: stream_response_def)
  qed
qed

text \<open>
  C7. For every stream, whatever its course, the events are not empty and the last one is
  the terminal sentinel, which differs from every content event. If the streaming call
  raises, the events are exactly one error fragment and the sentinel; if the iterator
  raises after a prefix the loop ran through, the events are the fragments of that prefix,
  exactly one error fragment, and the sentinel. In both cases the stream leaves the store
  as it was, so no model-role turn is written, and for a request on an existing thread the
  conversations at the end are those from before the request followed by the user turn.
\<close>

theorem stream_ends_with_sentinel:
  "fst (stream_response gem cfg enc dumps now g db u) \<noteq> [] \<and>
   last (fst (stream_response gem cfg enc dumps now g db u)) = sse_done \<and>
   (\<forall>t. sse_content dumps t \<noteq> sse_done) \<and>
   (send_message_stream gem (gen_chat g) (gen_question g) = Inl e \<longrightarrow>
      fst (stream_response gem cfg enc dumps now g db u)
        = [sse_content dumps (error_notice e), sse_done] \<and>
      fst (snd (stream_response gem cfg enc dumps now g db u)) = db) \<and>
   (send_message_stream gem (gen_chat g) (gen_question g) = Inr (pre @ Raises e # rest) \<and>
    fst (for_loop cfg enc dumps pre [] u) = Exhausted \<longrightarrow>
      fst (stream_response gem cfg enc dumps now g db u)
        = map (sse_content dumps) (fragments pre) @ [sse_content dumps (error_notice e), sse_done] \<and>
      fst (snd (stream_response gem cfg enc dumps now g db u)) = db) \<and>
   (get_thread db0 tid = Inr (Some th) \<and>
    fst (chat_with_thread gem enc now1 req tid db0) = StreamingResponse g \<and>
    (send_message_stream gem (gen_chat g) (gen_question g) = Inl e \<or>
     send_message_stream gem (gen_chat g) (gen_question g) = Inr (pre @ Raises e # rest) \<and>
     fst (for_loop cfg enc dumps pre [] u) = Exhausted) \<longrightarrow>
      conversations (fst (snd (snd (serve_chat gem cfg enc dumps now1 now req tid db0 u))))
        = conversations db0 @ [user_turn enc tid (question req)])"
proof -
  have a: "fst (stream_response gem cfg enc dumps now g db u) \<noteq> [] \<and>
      last (fst (stream_response gem cfg enc dumps now g db u)) = sse_done"
    by (rule stream_response_last_done)
  have b: "\<forall>t. sse_content dumps t \<noteq> sse_done"
    by (simp add: sse_content_not_done)
  have c: "send_message_stream gem (gen_chat g) (gen_question g) = Inl e \<longrightarrow>
      fst (stream_response gem cfg enc dumps now g db u)
        = [sse_content dumps (error_notice e), sse_done] \<and>
      fst (snd (stream_response gem cfg enc dumps now g db u)) = db"
    by (simp add: stream_response_call_raises)
  have d: "send_message_stream gem (gen_chat g) (gen_question g) = Inr (pre @ Raises e # rest) \<and>
    fst (for_loop cfg enc dumps pre [] u) = Exhausted \<longrightarrow>
      fst (stream_response gem cfg enc dumps now g db u)
        = map (sse_content dumps) (fragments pre) @ [sse_content dumps (error_notice e), sse_done] \<and>
      fst (snd (stream_response gem cfg enc dumps now g db u)) = db"
    by (simp add: stream_response_raised)
  have e: "get_thread db0 tid = Inr (Some th) \<and>
    fst (chat_with_thread gem enc now1 req tid db0) = StreamingResponse g \<and>
    (send_message_stream gem (gen_chat g) (gen_question g) = Inl e \<or>
     send_message_stream gem (gen_chat g) (gen_question g) = Inr (pre @ Raises e # rest) \<and>
     fst (for_loop cfg enc dumps pre [] u) = Exhausted) \<longrightarrow>
      conversations (fst (snd (snd (serve_chat gem cfg enc dumps now1 now req tid db0 u))))
        = conversations db0 @ [user_turn enc tid (question req)]"
  proof (intro impI, elim conjE)
    assume t: "get_thread db0 tid = Inr (Some th)"
      and r: "fst (chat_with_thread gem enc now1 req tid db0) = StreamingResponse g"
      and f: "send_message_stream gem (gen_chat g) (gen_question g) = Inl e \<or>
        send_message_stream gem (gen_chat g) (gen_question g) = Inr (pre @ Raises e # rest) \<and>
        fst (for_loop cfg enc dumps pre [] u) = Exhausted"
    let ?db1 = "snd (chat_with_thread gem enc now1 req tid db0)"
    have "fst (snd (stream_response gem cfg enc dumps now g ?db1 u)) = ?db1"
      using f by (auto simp: stream_response_call_raises stream_response_raised)
    then show "conversations (fst (snd (snd (serve_chat gem cfg enc dumps now1 now req tid db0 u))))
        = conversations db0 @ [user_turn enc tid (question req)]"
      by (simp add: serve_chat_streaming [OF r] chat_with_thread_existing [OF t r]
          touch_thread_def)
  qed
  from a b c d e show ?thesis
    by blast
qed

lemma eval_chat_one_thread:
  "chat_with_thread gem len_encoder 5 demo_request 1 one_thread =
     (process_chat_request gem (str ''hi'') [] (str ''gemini-2.0-flash'') 1,
      touch_thread 5 1 (one_thread\<lparr>conversations := [user_turn len_encoder 1 (str ''hi'')]\<rparr>))"
proof -
  have t: "get_thread one_thread 1 = Inr (Some demo_thread)"
    by (rule get_thread_one_thread)
  have c: "commit_raises one_thread = None" "conversations one_thread = []"
    "select_conversations_raises one_thread = None"
    by (simp_all add: one_thread_def)
  have r: "get_thread_messages_optimized one_thread 1 = (Inr [], one_thread)"
    by (simp add: retrieve_ok [OF get_thread_usable [OF t] c(3)] c(2))
  show ?thesis
    by (simp add: chat_with_thread_def Let_def demo_request_def add_user_message [OF t c(1)] c r
        del: One_nat_def)
qed

lemma eval_process_demo:
  "chats_create_raises gem (str ''gemini-2.0-flash'') [] = None \<Longrightarrow>
   process_chat_request gem (str ''hi'') [] (str ''gemini-2.0-flash'') 1
     = StreamingResponse demo_generator"
  by (simp add: process_chat_request_def demo_generator_def)

theorem stream_ends_with_sentinel_witness:
  "send_message_stream (refusing (str ''quota'')) (gen_chat demo_generator)
       (gen_question demo_generator) = Inl (str ''quota'') \<and>
   stream_response (refusing (str ''quota'')) default_settings len_encoder plain_dumps 9
       demo_generator one_thread (fresh_window 0)
     = ([sse_content plain_dumps (error_notice (str ''quota'')), sse_done], one_thread,
        fresh_window 0) \<and>
   send_message_stream (scripted hel_then_raise) (gen_chat demo_generator)
       (gen_question demo_generator)
     = Inr ([Chunk 1 (Some (str ''Hel''))] @ Raises (str ''reset by peer'')
            # [Chunk 2 (Some (str ''lo''))]) \<and>
   fst (for_loop default_settings len_encoder plain_dumps [Chunk 1 (Some (str ''Hel''))] []
          (fresh_window 0)) = Exhausted \<and>
   fst (stream_response (scripted hel_then_raise) default_settings len_encoder plain_dumps 9
          demo_generator one_thread (fresh_window 0))
     = [sse_content plain_dumps (str ''Hel''),
        sse_content plain_dumps (error_notice (str ''reset by peer'')), sse_done] \<and>
   fst (snd (stream_response (scripted hel_then_raise) default_settings len_encoder plain_dumps 9
          demo_generator one_thread (fresh_window 0))) = one_thread \<and>
   get_thread one_thread 1 = Inr (Some demo_thread) \<and>
   fst (chat_with_thread (scripted hel_then_raise) len_encoder 5 demo_request 1 one_thread)
     = StreamingResponse demo_generator \<and>
   conversations (fst (snd (snd (serve_chat (scripted hel_then_raise) default_settings len_encoder
        plain_dumps 5 9 demo_request 1 one_thread (fresh_window 0)))))
     = [user_turn len_encoder 1 (str ''hi'')]"
proof -
  let ?pre = "[Chunk 1 (Some (str ''Hel''))]"
  have h1: "send_message_stream (refusing (str ''quota'')) (gen_chat demo_generator)
       (gen_question demo_generator) = Inl (str ''quota'')"
    by (simp add: refusing_def)
  have h2: "send_message_stream (scripted hel_then_raise) (gen_chat demo_generator)
       (gen_question demo_generator)
     = Inr (?pre @ Raises (str ''reset by peer'') # [Chunk 2 (Some (str ''lo''))])"
    by (simp add: scripted_def hel_then_raise_def)
  have h3: "fst (for_loop default_settings len_encoder plain_dumps ?pre [] (fresh_window 0))
      = Exhausted"
    by (simp add: default_settings_def len_encoder_def count_tokens_def
        check_token_rate_limit_def check_and_reset_counters_def fresh_window_def str_def Let_def)
  have h4: "get_thread one_thread 1 = Inr (Some demo_thread)"
    by (rule get_thread_one_thread)
  have h5: "fst (chat_with_thread (scripted hel_then_raise) len_encoder 5 demo_request 1 one_thread)
     = StreamingResponse demo_generator"
    unfolding eval_chat_one_thread by (simp add: eval_process_demo scripted_def del: One_nat_def)
  have f: "fragments ?pre = [str ''Hel'']"
    by (simp add: str_def)
  have c: "conversations one_thread = []"
    by (simp add: one_thread_def)
  note w1 = stream_ends_with_sentinel [where gem = "refusing (str ''quota'')" and g = demo_generator
      and e = "str ''quota''" and cfg = default_settings and enc = len_encoder
      and dumps = plain_dumps and now = 9 and db = one_thread and u = "fresh_window 0"]
  note w2 = stream_ends_with_sentinel [where gem = "scripted hel_then_raise" and g = demo_generator
      and e = "str ''reset by peer''" and pre = ?pre and rest = "[Chunk 2 (Some (str ''lo''))]"
      and cfg = default_settings and enc = len_encoder and dumps = plain_dumps and now = 9
      and db = one_thread and u = "fresh_window 0" and ?db0.0 = one_thread and tid = 1
      and th = demo_thread and ?now1.0 = 5 and req = demo_request]
  have a: "fst (stream_response (refusing (str ''quota'')) default_settings len_encoder plain_dumps 9
          demo_generator one_thread (fresh_window 0))
        = [sse_content plain_dumps (error_notice (str ''quota'')), sse_done] \<and>
      fst (snd (stream_response (refusing (str ''quota'')) default_settings len_encoder plain_dumps 9
          demo_generator one_thread (fresh_window 0))) = one_thread"
    using w1 h1 by blast
  have a': "snd (snd (stream_response (refusing (str ''quota'')) default_settings len_encoder
          plain_dumps 9 demo_generator one_thread (fresh_window 0))) = fresh_window 0"
    by (simp add: stream_response_call_raises [OF h1])
  have b: "fst (stream_response (scripted hel_then_raise) default_settings len_encoder plain_dumps 9
          demo_generator one_thread (fresh_window 0))
        = map (sse_content plain_dumps) (fragments ?pre)
            @ [sse_content plain_dumps (error_notice (str ''reset by peer'')), sse_done] \<and>
      fst (snd (stream_response (scripted hel_then_raise) default_settings len_encoder plain_dumps 9
          demo_generator one_thread (fresh_window 0))) = one_thread"
    using w2 h2 h3 by blast
  have d: "conversations (fst (snd (snd (serve_chat (scripted hel_then_raise) default_settings
        len_encoder plain_dumps 5 9 demo_request 1 one_thread (fresh_window 0)))))
     = conversations one_thread @ [user_turn len_encoder 1 (question demo_request)]"
    using w2 h2 h3 h4 h5 by blast
  have q: "question demo_request = str ''hi''"
    by (simp add: demo_request_def)
  have a2: "stream_response (refusing (str ''quota'')) default_settings len_encoder plain_dumps 9
       demo_generator one_thread (fresh_window 0)
     = ([sse_content plain_dumps (error_notice (str ''quota'')), sse_done], one_thread,
        fresh_window 0)"
    using a a' by (simp add: prod_eq_iff)
  have b1: "fst (stream_response (scripted hel_then_raise) default_settings len_encoder
          plain_dumps 9 demo_generator one_thread (fresh_window 0))
     = [sse_content plain_dumps (str ''Hel''),
        sse_content plain_dumps (error_notice (str ''reset by peer'')), sse_done]"
    using b [unfolded f] by simp
  have b2: "fst (snd (stream_response (scripted hel_then_raise) default_settings len_encoder
          plain_dumps 9 demo_generator one_thread (fresh_window 0))) = one_thread"
    using b by blast
  have d1: "conversations (fst (snd (snd (serve_chat (scripted hel_then_raise) default_settings
        len_encoder plain_dumps 5 9 demo_request 1 one_thread (fresh_window 0)))))
     = [user_turn len_encoder 1 (str ''hi'')]"
    using d [unfolded c q] by simp
  from h1 a2 h2 h3 b1 b2 h4 h5 d1 show ?thesis
    by blast
qed


lemma eval_chat_missing_thread:
  "get_thread db tid = Inr None \<Longrightarrow> select_conversations_raises db = None \<Longrightarrow>
   chat_with_thread gem enc now req tid db =
     (process_chat_request gem (question req)
        (map (\<lambda>row. \<lparr>h_role = role row, parts = [content row]\<rparr>)
           (filter (\<lambda>c. thread_id c = tid) (conversations db)))
        (req_model req) tid, db)"
  by (frule get_thread_usable)
    (simp add: chat_with_thread_def Let_def add_messages_missing_thread retrieve_ok)

lemma eval_hello_world_stream:
  "get_thread db (gen_thread_id g) = Inr None \<Longrightarrow>
   stream_response (scripted hello_world) default_settings len_encoder plain_dumps now g db
       (fresh_window 0)
     = ([sse_content plain_dumps (str ''Hel''), sse_content plain_dumps (str ''lo''),
         sse_content plain_dumps (str '' world''), sse_done], db,
        \<lparr>last_reset = 0, tokens_used = 11, requests_used = 0\<rparr>)"
  by (simp add: stream_response_def scripted_def eval_hello_world_loop
      add_messages_missing_thread)

text \<open>
  C9, as stated, fails for a request that names a thread which is not in the store:
  \<^verbatim>\<open>add_messages_to_thread\<close> returns \<^verbatim>\<open>False\<close> without writing, the route ignores the result,
  and the model call is issued (its fragments are streamed) although no user turn was
  persisted.
\<close>

theorem user_turn_missing_thread_counterexample:
  "get_thread no_threads 1 = Inr None \<and>
   fst (chat_with_thread (scripted hello_world) len_encoder 5 demo_request 1 no_threads)
     = StreamingResponse demo_generator \<and>
   conversations (snd (chat_with_thread (scripted hello_world) len_encoder 5 demo_request 1
       no_threads)) = [] \<and>
   fst (snd (serve_chat (scripted hello_world) default_settings len_encoder plain_dumps 5 9
       demo_request 1 no_threads (fresh_window 0)))
     = [sse_content plain_dumps (str ''Hel''), sse_content plain_dumps (str ''lo''),
        sse_content plain_dumps (str '' world''), sse_done]"
proof -
  have m: "get_thread no_threads 1 = Inr None"
    by (rule get_thread_no_threads)
  have s: "select_conversations_raises no_threads = None" "conversations no_threads = []"
    by (simp_all add: no_threads_def)
  have q: "question demo_request = str ''hi''" "req_model demo_request = str ''gemini-2.0-flash''"
    by (simp_all add: demo_request_def)
  have p: "process_chat_request (scripted hello_world) (str ''hi'') [] (str ''gemini-2.0-flash'') 1
      = StreamingResponse demo_generator"
    by (rule eval_process_demo) (simp add: scripted_def)
  have c: "chat_with_thread (scripted hello_world) len_encoder 5 demo_request 1 no_threads
      = (StreamingResponse demo_generator, no_threads)"
    unfolding eval_chat_missing_thread [OF m s(1)] by (simp add: s q p del: One_nat_def)
  have g: "get_thread no_threads (gen_thread_id demo_generator) = Inr None"
    by (rule get_thread_no_threads)
  have "serve_chat (scripted hello_world) default_settings len_encoder plain_dumps 5 9
       demo_request 1 no_threads (fresh_window 0)
     = (StreamingResponse demo_generator,
        stream_response (scripted hello_world) default_settings len_encoder plain_dumps 9
          demo_generator no_threads (fresh_window 0))"
    using serve_chat_streaming [where gem = "scripted hello_world" and enc = len_encoder
        and ?now1.0 = 5 and req = demo_request and tid = 1 and db = no_threads
        and g = demo_generator] c
    by simp
  then have e: "fst (snd (serve_chat (scripted hello_world) default_settings len_encoder
       plain_dumps 5 9 demo_request 1 no_threads (fresh_window 0)))
     = [sse_content plain_dumps (str ''Hel''), sse_content plain_dumps (str ''lo''),
        sse_content plain_dumps (str '' world''), sse_done]"
    by (simp add: eval_hello_world_stream [OF g])
  from m c s(2) e show ?thesis
    by simp
qed

text \<open>
  C9 (amended). For every chat request on a thread that exists in the store, whenever the
  route returns the streaming response (the only value whose iteration issues the model
  call), the store at that moment is the store of the request with exactly the user-role
  turn appended (content the question, token count computed by \<^verbatim>\<open>count_tokens\<close>) and the
  thread's \<^verbatim>\<open>updated_at\<close> set; the stream, and with it the model call, runs on that store;
  and the user turn is still there, before anything the stream adds, when the stream ends.
\<close>

theorem user_turn_before_model_call:
  "get_thread db tid = Inr (Some th) \<Longrightarrow>
   fst (chat_with_thread gem enc now1 req tid db) = StreamingResponse g \<Longrightarrow>
   snd (chat_with_thread gem enc now1 req tid db)
     = touch_thread now1 tid
         (db\<lparr>conversations := conversations db @ [user_turn enc tid (question req)]\<rparr>) \<and>
   serve_chat gem cfg enc dumps now1 now2 req tid db u
     = (StreamingResponse g,
        stream_response gem cfg enc dumps now2 g
          (touch_thread now1 tid
             (db\<lparr>conversations := conversations db @ [user_turn enc tid (question req)]\<rparr>)) u) \<and>
   (\<exists>later. conversations (fst (snd (snd (serve_chat gem cfg enc dumps now1 now2 req tid db u))))
        = conversations db @ user_turn enc tid (question req) # later)"
proof -
  assume t: "get_thread db tid = Inr (Some th)"
    and r: "fst (chat_with_thread gem enc now1 req tid db) = StreamingResponse g"
  let ?db1 = "touch_thread now1 tid
      (db\<lparr>conversations := conversations db @ [user_turn enc tid (question req)]\<rparr>)"
  have a: "snd (chat_with_thread gem enc now1 req tid db) = ?db1"
    by (rule chat_with_thread_existing [OF t r])
  have b: "serve_chat gem cfg enc dumps now1 now2 req tid db u
      = (StreamingResponse g, stream_response gem cfg enc dumps now2 g ?db1 u)"
    by (simp add: serve_chat_streaming [OF r] a)
  obtain xs where "conversations (fst (snd (stream_response gem cfg enc dumps now2 g ?db1 u)))
      = conversations ?db1 @ xs"
    using stream_response_appends by blast
  then have c: "conversations (fst (snd (snd (serve_chat gem cfg enc dumps now1 now2 req tid db u))))
      = conversations db @ user_turn enc tid (question req) # xs"
    by (simp add: b touch_thread_def)
  from a b c show ?thesis
    by blast
qed

theorem user_turn_before_model_call_witness:
  "get_thread one_thread 1 = Inr (Some demo_thread) \<and>
   fst (chat_with_thread (scripted hello_world) len_encoder 5 demo_request 1 one_thread)
     = StreamingResponse demo_generator \<and>
   conversations (snd (chat_with_thread (scripted hello_world) len_encoder 5 demo_request 1
       one_thread))
     = [\<lparr>thread_id = 1, role = str ''user'', content = str ''hi'', model = None,
         token_count = Some 2\<rparr>]"
proof -
  have h1: "get_thread one_thread 1 = Inr (Some demo_thread)"
    by (rule get_thread_one_thread)
  have h2: "fst (chat_with_thread (scripted hello_world) len_encoder 5 demo_request 1 one_thread)
     = StreamingResponse demo_generator"
    unfolding eval_chat_one_thread by (simp add: eval_process_demo scripted_def del: One_nat_def)
  have q: "user_turn len_encoder 1 (question demo_request)
      = \<lparr>thread_id = 1, role = str ''user'', content = str ''hi'', model = None,
         token_count = Some 2\<rparr>"
    by (simp add: user_turn_def demo_request_def count_tokens_def len_encoder_def str_def)
  have c: "conversations one_thread = []"
    by (simp add: one_thread_def)
  from user_turn_before_model_call [OF h1 h2]
  have "snd (chat_with_thread (scripted hello_world) len_encoder 5 demo_request 1 one_thread)
     = touch_thread 5 1
         (one_thread\<lparr>conversations := conversations one_thread
            @ [user_turn len_encoder 1 (question demo_request)]\<rparr>)"
    by blast
  then have "conversations (snd (chat_with_thread (scripted hello_world) len_encoder 5
       demo_request 1 one_thread))
     = [\<lparr>thread_id = 1, role = str ''user'', content = str ''hi'', model = None,
         token_count = Some 2\<rparr>]"
    unfolding q c by (simp add: touch_thread_def)
  with h1 h2 show ?thesis
    by blast
qed

text \<open>
  C2 does not hold of the code. A request for thread 2, which is not in the store, is not
  rejected: the route returns a streaming response and the model's fragments are
  streamed. The route takes no caller identity at all, so a request for thread 1, owned by
  user 7, appends a user turn to it whoever sends it. The sibling routes of
  app/api/routes/threads.py answer 404 and 403 in these two cases.
\<close>

theorem chat_route_skips_thread_checks:
  "get_thread one_thread 2 = Inr None \<and>
   fst (chat_with_thread (scripted hello_world) len_encoder 5 demo_request 2 one_thread)
     = StreamingResponse (demo_generator\<lparr>gen_thread_id := 2\<rparr>) \<and>
   fst (snd (serve_chat (scripted hello_world) default_settings len_encoder plain_dumps 5 9
       demo_request 2 one_thread (fresh_window 0)))
     = [sse_content plain_dumps (str ''Hel''), sse_content plain_dumps (str ''lo''),
        sse_content plain_dumps (str '' world''), sse_done] \<and>
   map user_id (threads one_thread) = [7] \<and>
   chat_with_thread (scripted hello_world) len_encoder 5 demo_request 1 one_thread
     = (StreamingResponse demo_generator,
        touch_thread 5 1 (one_thread\<lparr>conversations := [user_turn len_encoder 1 (str ''hi'')]\<rparr>))"
proof -
  have m: "get_thread one_thread 2 = Inr None"
    by (simp add: get_thread_def execute_raises_def one_thread_def demo_thread_def)
  have s: "select_conversations_raises one_thread = None" "conversations one_thread = []"
    by (simp_all add: one_thread_def)
  have q: "question demo_request = str ''hi''" "req_model demo_request = str ''gemini-2.0-flash''"
    by (simp_all add: demo_request_def)
  have p: "process_chat_request (scripted hello_world) (str ''hi'') [] (str ''gemini-2.0-flash'') 2
      = StreamingResponse (demo_generator\<lparr>gen_thread_id := 2\<rparr>)"
    by (simp add: process_chat_request_def demo_generator_def scripted_def)
  have c: "chat_with_thread (scripted hello_world) len_encoder 5 demo_request 2 one_thread
      = (StreamingResponse (demo_generator\<lparr>gen_thread_id := 2\<rparr>), one_thread)"
    unfolding eval_chat_missing_thread [OF m s(1)] by (simp add: s q p)
  have g: "get_thread one_thread (gen_thread_id (demo_generator\<lparr>gen_thread_id := 2\<rparr>)) = Inr None"
    by (simp add: m)
  have "serve_chat (scripted hello_world) default_settings len_encoder plain_dumps 5 9
       demo_request 2 one_thread (fresh_window 0)
     = (StreamingResponse (demo_generator\<lparr>gen_thread_id := 2\<rparr>),
        stream_response (scripted hello_world) default_settings len_encoder plain_dumps 9
          (demo_generator\<lparr>gen_thread_id := 2\<rparr>) one_thread (fresh_window 0))"
    using serve_chat_streaming [where gem = "scripted hello_world" and enc = len_encoder
        and ?now1.0 = 5 and req = demo_request and tid = 2 and db = one_thread
        and g = "demo_generator\<lparr>gen_thread_id := 2\<rparr>"] c
    by simp
  then have e: "fst (snd (serve_chat (scripted hello_world) default_settings len_encoder
       plain_dumps 5 9 demo_request 2 one_thread (fresh_window 0)))
     = [sse_content plain_dumps (str ''Hel''), sse_content plain_dumps (str ''lo''),
        sse_content plain_dumps (str '' world''), sse_done]"
    by (simp add: eval_hello_world_stream [OF g])
  have o: "map user_id (threads one_thread) = [7]"
    by (simp add: one_thread_def demo_thread_def)
  have f: "chat_with_thread (scripted hello_world) len_encoder 5 demo_request 1 one_thread
     = (StreamingResponse demo_generator,
        touch_thread 5 1 (one_thread\<lparr>conversations := [user_turn len_encoder 1 (str ''hi'')]\<rparr>))"
    unfolding eval_chat_one_thread by (simp add: eval_process_demo scripted_def del: One_nat_def)
  from m c e o f show ?thesis
    by simp
qed

text \<open>
  C10 does not hold of the code. The inner \<^verbatim>\<open>try\<close> of the route does swallow the exception
  of the retrieval, but it does not roll the session back: the failed SELECT has left the
  transaction aborted, so the next statement, \<^verbatim>\<open>get_thread\<close> inside
  \<^verbatim>\<open>add_messages_to_thread\<close>, raises, and the outer handler answers HTTP 500. The model is
  never called: the response has no body events and nothing is written.
\<close>

theorem history_failure_answers_500:
  "select_conversations_raises broken_select
     = Some (str ''canceling statement due to statement timeout'') \<and>
   transaction_aborted broken_select = False \<and>
   commit_raises broken_select = None \<and>
   chat_with_thread (scripted hello_world) len_encoder 5 demo_request 1 broken_select
     = (HTTPException 500 aborted_text, broken_select\<lparr>transaction_aborted := True\<rparr>) \<and>
   serve_chat (scripted hello_world) default_settings len_encoder plain_dumps 5 9 demo_request 1
       broken_select (fresh_window 0)
     = (HTTPException 500 aborted_text, [], broken_select\<lparr>transaction_aborted := True\<rparr>,
        fresh_window 0)"
proof -
  have h: "select_conversations_raises broken_select
      = Some (str ''canceling statement due to statement timeout'')"
    "transaction_aborted broken_select = False" "commit_raises broken_select = None"
    "in_failed_transaction broken_select = aborted_text"
    by (simp_all add: broken_select_def)
  have u: "execute_raises broken_select = None"
    by (simp add: execute_raises_def h)
  have c: "chat_with_thread (scripted hello_world) len_encoder 5 demo_request 1 broken_select
     = (HTTPException 500 aborted_text, broken_select\<lparr>transaction_aborted := True\<rparr>)"
    using chat_with_thread_select_raises [OF u h(1), where gem = "scripted hello_world"
        and enc = len_encoder and now = 5 and req = demo_request and tid = 1]
    by (simp only: h(4))
  have "serve_chat (scripted hello_world) default_settings len_encoder plain_dumps 5 9
       demo_request 1 broken_select (fresh_window 0)
     = (HTTPException 500 aborted_text, [], broken_select\<lparr>transaction_aborted := True\<rparr>,
        fresh_window 0)"
    unfolding serve_chat_def c by simp
  with h c show ?thesis
    by blast
qed

end
